theory Spec2Isabelle
  imports Main "HOL-Library.Word"
begin

section \<open>Python values and exceptions\<close>

text \<open>
  The program is one Python file, \<^verbatim>\<open>cross.py\<close>: a settings store
  (\<^verbatim>\<open>save_settings\<close>, \<^verbatim>\<open>load_settings\<close>), the overlay widget, the settings
  dialog, the tray icon and the start-up script. Python is dynamically typed, so what
  \<^verbatim>\<open>json.load\<close> hands back, and what the overlay then holds, is a Python value of
  any JSON shape. Numbers with a fraction or an exponent (Python floats) are left out
  of the model; every other JSON value is there. A dictionary is an association list in
  insertion order, looked up with \<open>map_of\<close>.
\<close>

datatype pyval =
    PNone
  | PBool bool
  | PInt int
  | PStr string
  | PList "pyval list"
  | PDict "(string \<times> pyval) list"

text \<open>
  The exceptions that the program can meet. \<open>SystemExit\<close> carries the argument of
  \<^verbatim>\<open>sys.exit\<close> (\<open>None\<close> for a call without argument).
\<close>

datatype exn =
    FileNotFoundError
  | PermissionError
  | OSError
  | JSONDecodeError
  | KeyError
  | TypeError
  | OverflowError
  | SystemExit "int option"

text \<open>Sequencing of computations that may raise: the first exception wins.\<close>

definition andthen :: "exn + 'a \<Rightarrow> ('a \<Rightarrow> exn + 'b) \<Rightarrow> exn + 'b" where
  "andthen m f = (case m of Inl e \<Rightarrow> Inl e | Inr v \<Rightarrow> f v)"

text \<open>
  \<^verbatim>\<open>v[k]\<close> with a string key: a dictionary answers or raises \<^verbatim>\<open>KeyError\<close>; a
  list, a string, a number, a boolean and \<^verbatim>\<open>None\<close> raise \<^verbatim>\<open>TypeError\<close>.
\<close>

definition getitem :: "pyval \<Rightarrow> string \<Rightarrow> exn + pyval" where
  "getitem v k =
     (case v of
        PDict d \<Rightarrow> (case map_of d k of None \<Rightarrow> Inl KeyError | Some x \<Rightarrow> Inr x)
      | _ \<Rightarrow> Inl TypeError)"

text \<open>
  A Python object where Qt wants a C \<^verbatim>\<open>int\<close>: an \<^verbatim>\<open>int\<close> that fits 32 bits
  signed, or a \<^verbatim>\<open>bool\<close> (a subclass of \<^verbatim>\<open>int\<close>). \<open>as_int\<close> is the Python
  side (is it a number, and which), \<open>fits_cint\<close> the C side.
\<close>

definition as_int :: "pyval \<Rightarrow> int option" where
  "as_int v =
     (case v of
        PInt i \<Rightarrow> Some i
      | PBool b \<Rightarrow> Some (if b then 1 else 0)
      | _ \<Rightarrow> None)"

definition fits_cint :: "int \<Rightarrow> bool" where
  "fits_cint i = (- (2 ^ 31) \<le> i \<and> i < 2 ^ 31)"

text \<open>
  An argument that PyQt5 converts to a C \<^verbatim>\<open>int\<close> (\<^verbatim>\<open>QSlider.setValue\<close>,
  \<^verbatim>\<open>QPen.setWidth\<close>, the constructors \<^verbatim>\<open>QColor\<close> and \<^verbatim>\<open>QRect\<close>): a
  wrong type raises \<^verbatim>\<open>TypeError\<close>, a number out of the C range
  \<^verbatim>\<open>OverflowError\<close>.
\<close>

definition cint_arg :: "pyval \<Rightarrow> exn + int" where
  "cint_arg v =
     (case as_int v of
        None \<Rightarrow> Inl TypeError
      | Some i \<Rightarrow> if fits_cint i then Inr i else Inl OverflowError)"

section \<open>QColor\<close>

text \<open>
  A \<^verbatim>\<open>QColor\<close> is either invalid or four channels of eight bits. Qt's constructor
  from four integers leaves the colour invalid when a channel is outside 0..255; the
  channels of an invalid colour read as 0.
\<close>

datatype qcolor = Invalid_Color | Rgba "8 word" "8 word" "8 word" "8 word"

fun red :: "qcolor \<Rightarrow> int" where
  "red Invalid_Color = 0"
| "red (Rgba r g b a) = uint r"

fun green :: "qcolor \<Rightarrow> int" where
  "green Invalid_Color = 0"
| "green (Rgba r g b a) = uint g"

fun blue :: "qcolor \<Rightarrow> int" where
  "blue Invalid_Color = 0"
| "blue (Rgba r g b a) = uint b"

fun alpha :: "qcolor \<Rightarrow> int" where
  "alpha Invalid_Color = 255"
| "alpha (Rgba r g b a) = uint a"

fun isValid :: "qcolor \<Rightarrow> bool" where
  "isValid Invalid_Color = False"
| "isValid (Rgba r g b a) = True"

definition channel :: "int \<Rightarrow> bool" where
  "channel x = (0 \<le> x \<and> x \<le> 255)"

definition qcolor_rgba :: "int \<Rightarrow> int \<Rightarrow> int \<Rightarrow> int \<Rightarrow> qcolor" where
  "qcolor_rgba r g b a =
     (if channel r \<and> channel g \<and> channel b \<and> channel a
      then Rgba (word_of_int r) (word_of_int g) (word_of_int b) (word_of_int a)
      else Invalid_Color)"

text \<open>\<^verbatim>\<open>QColor(r, g, b, a)\<close> and \<^verbatim>\<open>QColor(r, g, b)\<close> (alpha 255) called from Python.\<close>

definition QColor4 :: "pyval \<Rightarrow> pyval \<Rightarrow> pyval \<Rightarrow> pyval \<Rightarrow> exn + qcolor" where
  "QColor4 r g b a =
     andthen (cint_arg r) (\<lambda>r'.
     andthen (cint_arg g) (\<lambda>g'.
     andthen (cint_arg b) (\<lambda>b'.
     andthen (cint_arg a) (\<lambda>a'.
     Inr (qcolor_rgba r' g' b' a')))))"

definition QColor3 :: "pyval \<Rightarrow> pyval \<Rightarrow> pyval \<Rightarrow> exn + qcolor" where
  "QColor3 r g b = QColor4 r g b (PInt 255)"

section \<open>The settings file\<close>

text \<open>
  The store touches one file, \<^verbatim>\<open>settings.json\<close> in the working directory. Its
  text is represented by what \<^verbatim>\<open>json.load\<close> makes of it: \<open>Unparsable\<close> is any
  text that \<^verbatim>\<open>json.load\<close> rejects with \<^verbatim>\<open>JSONDecodeError\<close> (the empty text, a
  document cut short, anything that is not JSON), \<open>Document v\<close> a text that decodes to
  \<open>v\<close>. \<^verbatim>\<open>json.dump\<close> of a value writes a text that decodes to that value
  (it does for dictionaries with string keys, lists, strings, booleans, \<^verbatim>\<open>None\<close>
  and integers that Python prints, among them every integer a slider can hold).

  \<open>settings_json\<close> is \<open>None\<close> when the file does not exist. \<open>readable\<close> and
  \<open>writable\<close> say whether \<^verbatim>\<open>open\<close> succeeds in mode \<^verbatim>\<open>"r"\<close> and in mode
  \<^verbatim>\<open>"w"\<close>; \<open>device_ok\<close> says whether data written to the open file reaches it (it
  is \<open>False\<close> on a full disk).
\<close>

datatype file_text = Unparsable | Document pyval

record filesystem =
  settings_json :: "file_text option"
  readable :: bool
  writable :: bool
  device_ok :: bool

definition open_r :: "filesystem \<Rightarrow> exn + file_text" where
  "open_r fs =
     (case settings_json fs of
        None \<Rightarrow> Inl FileNotFoundError
      | Some t \<Rightarrow> if readable fs then Inr t else Inl PermissionError)"

definition json_load :: "file_text \<Rightarrow> exn + pyval" where
  "json_load t = (case t of Unparsable \<Rightarrow> Inl JSONDecodeError | Document v \<Rightarrow> Inr v)"

text \<open>
  \<^verbatim>\<open>open("settings.json", "w")\<close>: a refused open leaves the file as it was; a
  granted one creates the file or cuts it to the empty text.
\<close>

definition open_w :: "filesystem \<Rightarrow> exn + filesystem" where
  "open_w fs =
     (if writable fs then Inr (fs\<lparr>settings_json := Some Unparsable\<rparr>)
      else Inl PermissionError)"

text \<open>
  \<^verbatim>\<open>json.dump(v, f)\<close> followed by the close of \<^verbatim>\<open>f\<close>, on a file just opened for
  writing: the result is the exception raised, if any, and the file system left
  behind. When the device refuses the data, the file keeps what reached it: less than
  the document.
\<close>

definition json_dump :: "pyval \<Rightarrow> filesystem \<Rightarrow> exn option \<times> filesystem" where
  "json_dump v fs =
     (if device_ok fs then (None, fs\<lparr>settings_json := Some (Document v)\<rparr>)
      else (Some OSError, fs\<lparr>settings_json := Some Unparsable\<rparr>))"

text \<open>The dictionary that \<^verbatim>\<open>save_settings\<close> builds (lines 22 to 31).\<close>

definition settings_dict :: "pyval \<Rightarrow> pyval \<Rightarrow> qcolor \<Rightarrow> pyval \<Rightarrow> pyval" where
  "settings_dict size0 thickness color transparency =
     PDict [(''size'', size0),
            (''thickness'', thickness),
            (''color'', PDict [(''r'', PInt (red color)),
                               (''g'', PInt (green color)),
                               (''b'', PInt (blue color))]),
            (''transparency'', transparency)]"

definition save_settings ::
  "pyval \<Rightarrow> pyval \<Rightarrow> qcolor \<Rightarrow> pyval \<Rightarrow> filesystem \<Rightarrow> exn option \<times> filesystem" where
  "save_settings size0 thickness color transparency fs =
     (let settings = settings_dict size0 thickness color transparency in
      case open_w fs of
        Inl e \<Rightarrow> (Some e, fs)
      | Inr fs' \<Rightarrow> json_dump settings fs')"

text \<open>
  \<^verbatim>\<open>load_settings\<close>: \<open>load_try\<close> is the body of the \<^verbatim>\<open>try\<close> block, evaluated
  in Python's order (the tuple's elements left to right, the arguments of
  \<^verbatim>\<open>QColor\<close> before its call); \<open>load_settings\<close> adds the \<^verbatim>\<open>except\<close> clause,
  which catches \<^verbatim>\<open>FileNotFoundError\<close> and \<^verbatim>\<open>KeyError\<close> and nothing else.
\<close>

type_synonym settings = "pyval \<times> pyval \<times> qcolor \<times> pyval"

definition load_try :: "filesystem \<Rightarrow> exn + settings" where
  "load_try fs =
     andthen (open_r fs) (\<lambda>f.
     andthen (json_load f) (\<lambda>settings.
     andthen (getitem settings ''size'') (\<lambda>size0.
     andthen (getitem settings ''thickness'') (\<lambda>thickness.
     andthen (getitem settings ''color'') (\<lambda>c1.
     andthen (getitem c1 ''r'') (\<lambda>r.
     andthen (getitem settings ''color'') (\<lambda>c2.
     andthen (getitem c2 ''g'') (\<lambda>g.
     andthen (getitem settings ''color'') (\<lambda>c3.
     andthen (getitem c3 ''b'') (\<lambda>b.
     andthen (QColor3 r g b) (\<lambda>color.
     andthen (getitem settings ''transparency'') (\<lambda>transparency.
     Inr (size0, thickness, color, transparency)))))))))))))"

definition default_settings :: settings where
  "default_settings = (PInt 3, PInt 2, qcolor_rgba 255 255 255 255, PInt 255)"

definition load_settings :: "filesystem \<Rightarrow> exn + settings" where
  "load_settings fs =
     (case load_try fs of
        Inl FileNotFoundError \<Rightarrow> Inr default_settings
      | Inl KeyError \<Rightarrow> Inr default_settings
      | Inl e \<Rightarrow> Inl e
      | Inr t \<Rightarrow> Inr t)"

section \<open>The overlay window\<close>

text \<open>
  \<^verbatim>\<open>CrosshairOverlay\<close>: the four appearance attributes, the geometry set from
  the primary screen, and whether the widget is shown. The attributes keep whatever
  Python value they were given.
\<close>

record overlay =
  overlay_size :: pyval
  overlay_thickness :: pyval
  overlay_color :: qcolor
  overlay_transparency :: pyval
  overlay_width :: int
  overlay_height :: int
  overlay_shown :: bool

definition overlay_show :: "overlay \<Rightarrow> overlay" where
  "overlay_show self = self\<lparr>overlay_shown := True\<rparr>"

definition overlay_hide :: "overlay \<Rightarrow> overlay" where
  "overlay_hide self = self\<lparr>overlay_shown := False\<rparr>"

text \<open>
  \<^verbatim>\<open>__init__\<close> stores its arguments, fits the window to the screen
  (\<^verbatim>\<open>update_window_geometry\<close>) and shows it full screen.
\<close>

definition CrosshairOverlay ::
  "pyval \<Rightarrow> pyval \<Rightarrow> qcolor \<Rightarrow> pyval \<Rightarrow> int \<times> int \<Rightarrow> overlay" where
  "CrosshairOverlay size0 thickness color transparency screen_size =
     overlay_show
       \<lparr>overlay_size = size0,
        overlay_thickness = thickness,
        overlay_color = color,
        overlay_transparency = transparency,
        overlay_width = fst screen_size,
        overlay_height = snd screen_size,
        overlay_shown = False\<rparr>"

text \<open>
  \<^verbatim>\<open>set_crosshair_properties\<close> assigns the four attributes; \<^verbatim>\<open>self.update()\<close>
  asks Qt for a repaint, which reads them through \<open>paintEvent\<close>.
\<close>

definition set_crosshair_properties ::
  "pyval \<Rightarrow> pyval \<Rightarrow> qcolor \<Rightarrow> pyval \<Rightarrow> overlay \<Rightarrow> overlay" where
  "set_crosshair_properties size0 thickness color transparency self =
     self\<lparr>overlay_size := size0,
          overlay_thickness := thickness,
          overlay_color := color,
          overlay_transparency := transparency\<rparr>"

text \<open>
  What \<^verbatim>\<open>paintEvent\<close> tells the painter: the pen (colour and width), the brush
  colour, and the rectangle \<open>(x, y, width, height)\<close> given to \<^verbatim>\<open>drawEllipse\<close>.
\<close>

record painting =
  pen_color :: qcolor
  pen_width :: int
  brush_color :: qcolor
  ellipse_rect :: "int \<times> int \<times> int \<times> int"

text \<open>
  \<^verbatim>\<open>QPen(color)\<close> makes a pen of width 1. \<^verbatim>\<open>QPen.setWidth\<close> of Qt 5.15 stores
  a width from 0 to 32767 and ignores any other (the pen keeps the width it had).
\<close>

definition pen_setWidth :: "int \<Rightarrow> int \<Rightarrow> int" where
  "pen_setWidth width current = (if 0 \<le> width \<and> width < 32768 then width else current)"

text \<open>
  \<^verbatim>\<open>QRect(x, y, w, h)\<close> from Python integers: an argument that does not fit a C
  \<^verbatim>\<open>int\<close> raises \<^verbatim>\<open>OverflowError\<close>.
\<close>

definition QRect :: "int \<Rightarrow> int \<Rightarrow> int \<Rightarrow> int \<Rightarrow> exn + (int \<times> int \<times> int \<times> int)" where
  "QRect x y w h =
     (if fits_cint x \<and> fits_cint y \<and> fits_cint w \<and> fits_cint h then Inr (x, y, w, h)
      else Inl OverflowError)"

text \<open>
  \<^verbatim>\<open>paintEvent\<close>, statement by statement. \<^verbatim>\<open>//\<close> on integers is floor division,
  as \<open>div\<close> on \<open>int\<close> is. In \<^verbatim>\<open>center_x - dot_radius\<close> a \<open>dot_radius\<close> that is
  not a number raises \<^verbatim>\<open>TypeError\<close>; this is the first use of \<open>dot_radius\<close>.
\<close>

definition paintEvent :: "overlay \<Rightarrow> exn + painting" where
  "paintEvent self =
     andthen (QColor4 (PInt 0) (PInt 0) (PInt 0) (overlay_transparency self)) (\<lambda>pen_col.
     andthen (cint_arg (overlay_thickness self)) (\<lambda>width.
     andthen (QColor4 (PInt (red (overlay_color self))) (PInt (green (overlay_color self)))
                (PInt (blue (overlay_color self))) (overlay_transparency self))
       (\<lambda>color_with_transparency.
     let screen_width = overlay_width self;
         screen_height = overlay_height self;
         center_x = screen_width div 2;
         center_y = screen_height div 2
     in
     andthen (case as_int (overlay_size self) of None \<Rightarrow> Inl TypeError | Some r \<Rightarrow> Inr r)
       (\<lambda>dot_radius.
     andthen (QRect (center_x - dot_radius) (center_y - dot_radius)
                (dot_radius * 2) (dot_radius * 2)) (\<lambda>rect.
     Inr \<lparr>pen_color = pen_col,
          pen_width = pen_setWidth width 1,
          brush_color = color_with_transparency,
          ellipse_rect = rect\<rparr>)))))"

section \<open>The settings dialog\<close>

text \<open>
  A \<^verbatim>\<open>QSlider\<close> as Qt's \<^verbatim>\<open>QAbstractSlider\<close> keeps it: a new slider has range
  0..99 and value 0; \<^verbatim>\<open>setRange\<close> stores the minimum and \<open>max min max\<close> and
  bounds the value again; \<^verbatim>\<open>setMinimum\<close> and \<^verbatim>\<open>setMaximum\<close> go through
  \<^verbatim>\<open>setRange\<close>; \<^verbatim>\<open>setValue\<close> bounds its argument to the range.
\<close>

record qslider =
  slider_minimum :: int
  slider_maximum :: int
  slider_value :: int

definition QSlider :: qslider where
  "QSlider = \<lparr>slider_minimum = 0, slider_maximum = 99, slider_value = 0\<rparr>"

definition bound :: "qslider \<Rightarrow> int \<Rightarrow> int" where
  "bound s v = max (slider_minimum s) (min (slider_maximum s) v)"

definition setValue :: "int \<Rightarrow> qslider \<Rightarrow> qslider" where
  "setValue v s = s\<lparr>slider_value := bound s v\<rparr>"

definition setRange :: "int \<Rightarrow> int \<Rightarrow> qslider \<Rightarrow> qslider" where
  "setRange lo hi s =
     (let s' = s\<lparr>slider_minimum := lo, slider_maximum := max lo hi\<rparr>
      in setValue (slider_value s') s')"

definition setMinimum :: "int \<Rightarrow> qslider \<Rightarrow> qslider" where
  "setMinimum lo s = setRange lo (max (slider_maximum s) lo) s"

definition setMaximum :: "int \<Rightarrow> qslider \<Rightarrow> qslider" where
  "setMaximum hi s = setRange (min (slider_minimum s) hi) hi s"

text \<open>
  The slider set up as the dialog's constructor does: minimum, maximum, then
  \<^verbatim>\<open>setValue\<close> of an attribute of the overlay. The slot is connected after
  \<^verbatim>\<open>setValue\<close>, so the set-up itself never calls \<^verbatim>\<open>update_settings\<close>.
\<close>

definition make_slider :: "int \<Rightarrow> int \<Rightarrow> pyval \<Rightarrow> exn + qslider" where
  "make_slider lo hi v =
     andthen (cint_arg v) (\<lambda>i. Inr (setValue i (setMaximum hi (setMinimum lo QSlider))))"

text \<open>
  \<^verbatim>\<open>SettingsWindow\<close>: the three sliders, the held colour, whether the dialog is
  shown, and \<open>dialog_id\<close>, the identity of the Python object (the number of the
  constructor call that made it). The dialog's \<^verbatim>\<open>self.overlay\<close> is the tray
  icon's overlay, the same object: the model keeps the one overlay in the application
  state and hands it to the dialog's methods.
\<close>

record dialog =
  size_slider :: qslider
  thickness_slider :: qslider
  transparency_slider :: qslider
  dialog_color :: qcolor
  dialog_shown :: bool
  dialog_id :: nat

definition SettingsWindow :: "nat \<Rightarrow> overlay \<Rightarrow> exn + dialog" where
  "SettingsWindow ident ov =
     andthen (make_slider 1 20 (overlay_size ov)) (\<lambda>s1.
     andthen (make_slider 1 10 (overlay_thickness ov)) (\<lambda>s2.
     andthen (make_slider 0 255 (overlay_transparency ov)) (\<lambda>s3.
     Inr \<lparr>size_slider = s1,
          thickness_slider = s2,
          transparency_slider = s3,
          dialog_color = overlay_color ov,
          dialog_shown = False,
          dialog_id = ident\<rparr>)))"

definition update_settings :: "dialog \<Rightarrow> overlay \<Rightarrow> overlay" where
  "update_settings self ov =
     (let size0 = slider_value (size_slider self);
          thickness = slider_value (thickness_slider self);
          transparency = slider_value (transparency_slider self)
      in set_crosshair_properties (PInt size0) (PInt thickness) (dialog_color self)
           (PInt transparency) ov)"

text \<open>
  \<^verbatim>\<open>open_color_dialog\<close>; \<open>chosen\<close> is what \<^verbatim>\<open>QColorDialog.getColor\<close> returned
  (an invalid colour when the user cancelled).
\<close>

definition open_color_dialog :: "qcolor \<Rightarrow> dialog \<Rightarrow> overlay \<Rightarrow> dialog \<times> overlay" where
  "open_color_dialog chosen self ov =
     (if isValid chosen
      then (let self' = self\<lparr>dialog_color := chosen\<rparr> in (self', update_settings self' ov))
      else (self, ov))"

text \<open>
  \<^verbatim>\<open>apply_settings\<close>: the live update, the save, then \<^verbatim>\<open>hide\<close>. An exception of
  \<^verbatim>\<open>save_settings\<close> leaves the method before \<^verbatim>\<open>hide\<close>.
\<close>

definition apply_settings ::
  "dialog \<Rightarrow> overlay \<Rightarrow> filesystem \<Rightarrow> exn option \<times> dialog \<times> overlay \<times> filesystem" where
  "apply_settings self ov fs =
     (let ov' = update_settings self ov;
          (raised, fs') = save_settings (overlay_size ov') (overlay_thickness ov')
                            (overlay_color ov') (overlay_transparency ov') fs
      in case raised of
           Some e \<Rightarrow> (Some e, self, ov', fs')
         | None \<Rightarrow> (None, self\<lparr>dialog_shown := False\<rparr>, ov', fs'))"

text \<open>
  The user drags a slider to a position: the slider bounds it, and emits
  \<^verbatim>\<open>valueChanged\<close>, which runs \<^verbatim>\<open>update_settings\<close>, only when the value changed.
\<close>

datatype slider_name = Size_slider | Thickness_slider | Transparency_slider

fun get_slider :: "slider_name \<Rightarrow> dialog \<Rightarrow> qslider" where
  "get_slider Size_slider d = size_slider d"
| "get_slider Thickness_slider d = thickness_slider d"
| "get_slider Transparency_slider d = transparency_slider d"

fun put_slider :: "slider_name \<Rightarrow> qslider \<Rightarrow> dialog \<Rightarrow> dialog" where
  "put_slider Size_slider s d = d\<lparr>size_slider := s\<rparr>"
| "put_slider Thickness_slider s d = d\<lparr>thickness_slider := s\<rparr>"
| "put_slider Transparency_slider s d = d\<lparr>transparency_slider := s\<rparr>"

definition slider_moved :: "slider_name \<Rightarrow> int \<Rightarrow> dialog \<Rightarrow> overlay \<Rightarrow> dialog \<times> overlay" where
  "slider_moved which pos self ov =
     (let s = get_slider which self; s' = setValue pos s
      in if slider_value s' = slider_value s then (self, ov)
         else (let self' = put_slider which s' self in (self', update_settings self' ov)))"

section \<open>The tray icon and the application\<close>

text \<open>
  The state of the running application: the overlay, the tray icon's attributes
  (\<^verbatim>\<open>is_overlay_visible\<close>, the text of \<^verbatim>\<open>toggle_action\<close>,
  \<^verbatim>\<open>settings_window\<close>), the number of \<^verbatim>\<open>SettingsWindow\<close> objects constructed so
  far, and the file system.
\<close>

record app =
  overlay :: overlay
  is_overlay_visible :: bool
  toggle_action_text :: string
  settings_window :: "dialog option"
  dialogs_made :: nat
  disk :: filesystem

definition toggle_overlay :: "app \<Rightarrow> app" where
  "toggle_overlay self =
     (let self' =
        (if is_overlay_visible self
         then self\<lparr>overlay := overlay_hide (overlay self),
                   toggle_action_text := ''Show Crosshair''\<rparr>
         else self\<lparr>overlay := overlay_show (overlay self),
                   toggle_action_text := ''Hide Crosshair''\<rparr>)
      in self'\<lparr>is_overlay_visible := \<not> is_overlay_visible self\<rparr>)"

text \<open>
  \<^verbatim>\<open>open_settings\<close> constructs a \<^verbatim>\<open>SettingsWindow\<close>, assigns it to
  \<^verbatim>\<open>self.settings_window\<close> and shows it. When the constructor raises, nothing is
  assigned.
\<close>

definition open_settings :: "app \<Rightarrow> exn + app" where
  "open_settings self =
     andthen (SettingsWindow (Suc (dialogs_made self)) (overlay self)) (\<lambda>w.
     Inr (self\<lparr>settings_window := Some (w\<lparr>dialog_shown := True\<rparr>),
               dialogs_made := Suc (dialogs_made self)\<rparr>))"

datatype activation_reason = Unknown | Context | DoubleClick | Trigger | MiddleClick

definition on_tray_icon_activated :: "activation_reason \<Rightarrow> app \<Rightarrow> app" where
  "on_tray_icon_activated reason self =
     (if reason = Trigger then toggle_overlay self else self)"

text \<open>\<^verbatim>\<open>exit_app\<close> hides the overlay and calls \<^verbatim>\<open>app.quit()\<close>.\<close>

definition exit_app :: "app \<Rightarrow> app" where
  "exit_app self = self\<lparr>overlay := overlay_hide (overlay self)\<rparr>"

text \<open>
  The events that the program has a handler for. The dialog's controls exist only while
  a dialog is shown; an event for them without a shown dialog changes nothing.
\<close>

datatype event =
    Toggle_action
  | Settings_action
  | Exit_action
  | Tray_activated activation_reason
  | Slider_moved slider_name int
  | Color_button qcolor
  | Apply_button

text \<open>
  One event: the handler runs to its end (\<open>Handled\<close>), or it asks the event loop to
  quit (\<open>Quit\<close>), or it raises (\<open>Raised\<close>).
\<close>

datatype step = Handled app | Quit app | Raised exn app

definition on_dialog :: "(dialog \<Rightarrow> app \<Rightarrow> step) \<Rightarrow> app \<Rightarrow> step" where
  "on_dialog f st =
     (case settings_window st of
        None \<Rightarrow> Handled st
      | Some d \<Rightarrow> if dialog_shown d then f d st else Handled st)"

fun dispatch :: "event \<Rightarrow> app \<Rightarrow> step" where
  "dispatch Toggle_action st = Handled (toggle_overlay st)"
| "dispatch (Tray_activated reason) st = Handled (on_tray_icon_activated reason st)"
| "dispatch Settings_action st =
     (case open_settings st of Inl e \<Rightarrow> Raised e st | Inr st' \<Rightarrow> Handled st')"
| "dispatch Exit_action st = Quit (exit_app st)"
| "dispatch (Slider_moved which pos) st =
     on_dialog (\<lambda>d st.
       let (d', ov') = slider_moved which pos d (overlay st)
       in Handled (st\<lparr>overlay := ov', settings_window := Some d'\<rparr>)) st"
| "dispatch (Color_button chosen) st =
     on_dialog (\<lambda>d st.
       let (d', ov') = open_color_dialog chosen d (overlay st)
       in Handled (st\<lparr>overlay := ov', settings_window := Some d'\<rparr>)) st"
| "dispatch Apply_button st =
     on_dialog (\<lambda>d st.
       let (raised, d', ov', fs') = apply_settings d (overlay st) (disk st);
           st' = st\<lparr>overlay := ov', settings_window := Some d', disk := fs'\<rparr>
       in case raised of Some e \<Rightarrow> Raised e st' | None \<Rightarrow> Handled st') st"

text \<open>
  \<^verbatim>\<open>app.exec_()\<close> over the events that arrive: it returns 0 once \<^verbatim>\<open>quit\<close> was
  called, it is still looping when the events are used up, and an exception that
  leaves a slot ends the process (PyQt5 calls \<^verbatim>\<open>qFatal\<close>, which aborts).
  Repaints are not events of this loop: \<open>paintEvent\<close> is a function of the overlay,
  and a run during which Qt would paint an appearance that \<open>paintEvent\<close> raises on
  is still a run here.
\<close>

datatype loop = Looping app | Returned int app | Died exn app

fun app_exec :: "app \<Rightarrow> event list \<Rightarrow> loop" where
  "app_exec st [] = Looping st"
| "app_exec st (e # es) =
     (case dispatch e st of
        Handled st' \<Rightarrow> app_exec st' es
      | Quit st' \<Rightarrow> Returned 0 st'
      | Raised x st' \<Rightarrow> Died x st')"

section \<open>Start-up\<close>

text \<open>
  What the script finds when it starts: whether a system tray is available, whether
  \<^verbatim>\<open>dot.ico\<close> exists at the resource path, the size of the primary screen, and
  the file system.
\<close>

record environment =
  tray_available :: bool
  icon_exists :: bool
  screen_size :: "int \<times> int"
  files :: filesystem

text \<open>
  \<^verbatim>\<open>SystemTrayIcon.__init__\<close>: the attributes and the menu, then the icon; a
  missing icon shows the message box and calls \<^verbatim>\<open>sys.exit(1)\<close>, which raises
  \<^verbatim>\<open>SystemExit\<close>.
\<close>

definition sys_exit :: "int option \<Rightarrow> exn + 'a" where
  "sys_exit arg = Inl (SystemExit arg)"

definition SystemTrayIcon :: "environment \<Rightarrow> overlay \<Rightarrow> exn + app" where
  "SystemTrayIcon env ov =
     (let self = \<lparr>overlay = ov,
                  is_overlay_visible = True,
                  toggle_action_text = ''Hide Crosshair'',
                  settings_window = None,
                  dialogs_made = 0,
                  disk = files env\<rparr>
      in if icon_exists env then Inr self else sys_exit (Some 1))"

text \<open>
  The \<^verbatim>\<open>__main__\<close> block. Its value is the exception that leaves the script, or
  the state of the event loop.
\<close>

definition script :: "environment \<Rightarrow> event list \<Rightarrow> exn + loop" where
  "script env events =
     (if \<not> tray_available env then sys_exit None
      else
        andthen (load_settings (files env)) (\<lambda>(size0, thickness, color, transparency).
        let ov = CrosshairOverlay size0 thickness color transparency (screen_size env);
            ov = overlay_show ov
        in
        andthen (SystemTrayIcon env ov) (\<lambda>tray_icon.
        case app_exec tray_icon events of
          Returned rc st \<Rightarrow> sys_exit (Some rc)
        | running \<Rightarrow> Inr running)))"

text \<open>
  The process as the operating system sees it. The interpreter turns
  \<^verbatim>\<open>SystemExit\<close> into the exit status (0 when its argument is \<^verbatim>\<open>None\<close>) and
  any other exception that leaves the script into a traceback and status 1.
\<close>

datatype process = Alive app | Exit_status int | Aborted exn

definition main :: "environment \<Rightarrow> event list \<Rightarrow> process" where
  "main env events =
     (case script env events of
        Inl (SystemExit None) \<Rightarrow> Exit_status 0
      | Inl (SystemExit (Some n)) \<Rightarrow> Exit_status n
      | Inl e \<Rightarrow> Exit_status 1
      | Inr (Looping st) \<Rightarrow> Alive st
      | Inr (Died e st) \<Rightarrow> Aborted e
      | Inr (Returned rc st) \<Rightarrow> Exit_status rc)"

section \<open>The declared ranges, and what holds while the program runs\<close>

text \<open>
  The ranges of the sliders: size 1..20, thickness 1..10, transparency 0..255.
\<close>

definition in_ranges :: "int \<Rightarrow> int \<Rightarrow> int \<Rightarrow> bool" where
  "in_ranges size0 thickness transparency =
     (1 \<le> size0 \<and> size0 \<le> 20 \<and> 1 \<le> thickness \<and> thickness \<le> 10 \<and>
      0 \<le> transparency \<and> transparency \<le> 255)"

text \<open>
  An attribute that is a Python \<^verbatim>\<open>int\<close> between two bounds, and an overlay whose
  four appearance attributes are in their ranges.
\<close>

definition int_between :: "int \<Rightarrow> int \<Rightarrow> pyval \<Rightarrow> bool" where
  "int_between lo hi v = (case v of PInt i \<Rightarrow> lo \<le> i \<and> i \<le> hi | _ \<Rightarrow> False)"

definition appearance_ok :: "overlay \<Rightarrow> bool" where
  "appearance_ok ov =
     (int_between 1 20 (overlay_size ov) \<and>
      int_between 1 10 (overlay_thickness ov) \<and>
      channel (red (overlay_color ov)) \<and>
      channel (green (overlay_color ov)) \<and>
      channel (blue (overlay_color ov)) \<and>
      int_between 0 255 (overlay_transparency ov))"

text \<open>
  The four appearance attributes of the overlay, as the tuple \<^verbatim>\<open>load_settings\<close>
  returns and \<^verbatim>\<open>save_settings\<close> takes.
\<close>

definition appearance :: "overlay \<Rightarrow> settings" where
  "appearance ov =
     (overlay_size ov, overlay_thickness ov, overlay_color ov, overlay_transparency ov)"

text \<open>
  A slider with a given range and its value inside; a dialog whose three sliders have
  the ranges the constructor gives them.
\<close>

definition slider_ok :: "int \<Rightarrow> int \<Rightarrow> qslider \<Rightarrow> bool" where
  "slider_ok lo hi s =
     (slider_minimum s = lo \<and> slider_maximum s = hi \<and>
      lo \<le> slider_value s \<and> slider_value s \<le> hi)"

definition dialog_ok :: "dialog \<Rightarrow> bool" where
  "dialog_ok d =
     (slider_ok 1 20 (size_slider d) \<and>
      slider_ok 1 10 (thickness_slider d) \<and>
      slider_ok 0 255 (transparency_slider d))"

text \<open>
  Three facts about a running application: the dialog that the tray icon refers to
  was built by the constructor; the tray icon's flag and menu text agree with the
  overlay's visibility; the appearance is in range or is still the tuple that
  \<^verbatim>\<open>load_settings\<close> returned.
\<close>

definition dialog_inv :: "app \<Rightarrow> bool" where
  "dialog_inv st =
     (case settings_window st of
        None \<Rightarrow> True
      | Some d \<Rightarrow> dialog_ok d \<and> 0 < dialog_id d \<and> dialog_id d \<le> dialogs_made st)"

definition tray_inv :: "app \<Rightarrow> bool" where
  "tray_inv st =
     (overlay_shown (overlay st) = is_overlay_visible st \<and>
      toggle_action_text st =
        (if is_overlay_visible st then ''Hide Crosshair'' else ''Show Crosshair''))"

definition run_inv :: "settings \<Rightarrow> app \<Rightarrow> bool" where
  "run_inv loaded st =
     (dialog_inv st \<and> tray_inv st \<and>
      (appearance_ok (overlay st) \<or> appearance (overlay st) = loaded))"

text \<open>
  The state in which the script enters the event loop, given what
  \<^verbatim>\<open>load_settings\<close> returned.
\<close>

definition started :: "environment \<Rightarrow> settings \<Rightarrow> app" where
  "started env loaded =
     (case loaded of (size0, thickness, color, transparency) \<Rightarrow>
        \<lparr>overlay = \<lparr>overlay_size = size0, overlay_thickness = thickness, overlay_color = color,
                    overlay_transparency = transparency, overlay_width = fst (screen_size env),
                    overlay_height = snd (screen_size env), overlay_shown = True\<rparr>,
         is_overlay_visible = True,
         toggle_action_text = ''Hide Crosshair'',
         settings_window = None,
         dialogs_made = 0,
         disk = files env\<rparr>)"

text \<open>
  Projections of a process: its state while it runs, and the identity of the dialog
  that \<^verbatim>\<open>self.settings_window\<close> refers to.
\<close>

definition alive :: "process \<Rightarrow> app option" where
  "alive p = (case p of Alive st \<Rightarrow> Some st | _ \<Rightarrow> None)"

definition settings_window_id :: "process \<Rightarrow> nat option" where
  "settings_window_id p =
     (case p of Alive st \<Rightarrow> map_option dialog_id (settings_window st) | _ \<Rightarrow> None)"

text \<open>
  Events other than the Settings and the Exit menu items.
\<close>

definition no_open_or_exit :: "event \<Rightarrow> bool" where
  "no_open_or_exit e = (e \<noteq> Settings_action \<and> e \<noteq> Exit_action)"

section \<open>Example inputs\<close>

text \<open>
  A desktop with a system tray, the icon in place, a screen of 1920 by 1080 and no
  settings file; the application as it idles there after start-up; the first dialog
  opened from that state, and the application with that dialog open.
\<close>

definition desktop :: environment where
  "desktop =
     \<lparr>tray_available = True, icon_exists = True, screen_size = (1920, 1080),
      files = \<lparr>settings_json = None, readable = True, writable = True, device_ok = True\<rparr>\<rparr>"

definition idle :: app where
  "idle =
     \<lparr>overlay = \<lparr>overlay_size = PInt 3, overlay_thickness = PInt 2,
                 overlay_color = Rgba 255 255 255 255, overlay_transparency = PInt 255,
                 overlay_width = 1920, overlay_height = 1080, overlay_shown = True\<rparr>,
      is_overlay_visible = True,
      toggle_action_text = ''Hide Crosshair'',
      settings_window = None,
      dialogs_made = 0,
      disk = \<lparr>settings_json = None, readable = True, writable = True, device_ok = True\<rparr>\<rparr>"

definition first_dialog :: dialog where
  "first_dialog =
     \<lparr>size_slider = \<lparr>slider_minimum = 1, slider_maximum = 20, slider_value = 3\<rparr>,
      thickness_slider = \<lparr>slider_minimum = 1, slider_maximum = 10, slider_value = 2\<rparr>,
      transparency_slider = \<lparr>slider_minimum = 0, slider_maximum = 255, slider_value = 255\<rparr>,
      dialog_color = Rgba 255 255 255 255,
      dialog_shown = True,
      dialog_id = 1\<rparr>"

definition opened :: app where
  "opened = idle\<lparr>settings_window := Some first_dialog, dialogs_made := 1\<rparr>"

section \<open>Basic facts\<close>

lemma andthen_Inl [simp]: "andthen (Inl e) f = Inl e"
  by (simp add: andthen_def)

lemma andthen_Inr [simp]: "andthen (Inr v) f = f v"
  by (simp add: andthen_def)

lemma uint_channel: "channel x \<Longrightarrow> uint (word_of_int x :: 8 word) = x"
  by (simp add: channel_def uint_word_of_int take_bit_int_eq_self)

lemma channel_uint [simp]: "channel (uint (w :: 8 word))"
  using uint_lt2p [of w] by (simp add: channel_def)

lemma channel_red [simp]: "channel (red c)" 
  by (cases c) (simp_all add: channel_def[of 0])

lemma channel_green [simp]: "channel (green c)" 
  by (cases c) (simp_all add: channel_def[of 0])

lemma channel_blue [simp]: "channel (blue c)" 
  by (cases c) (simp_all add: channel_def[of 0])

lemma channel_consts [simp]: "channel 255" "channel 0" by (simp_all add: channel_def)

lemma fits_cint_channel: "channel x \<Longrightarrow> fits_cint x"
  by (simp add: channel_def fits_cint_def)

lemma cint_arg_channel: "channel x \<Longrightarrow> cint_arg (PInt x) = Inr x"
  by (simp add: cint_arg_def as_int_def fits_cint_channel)

lemma QColor4_channels: "channel r \<Longrightarrow> channel g \<Longrightarrow> channel b \<Longrightarrow> channel a \<Longrightarrow>
  QColor4 (PInt r) (PInt g) (PInt b) (PInt a) = Inr (Rgba (word_of_int r) (word_of_int g) (word_of_int b) (word_of_int a))"
  by (simp add: QColor4_def cint_arg_channel qcolor_rgba_def)

lemma QColor3_channels: "channel r \<Longrightarrow> channel g \<Longrightarrow> channel b \<Longrightarrow>
  QColor3 (PInt r) (PInt g) (PInt b) = Inr (qcolor_rgba r g b 255)"
  by (simp add: QColor3_def QColor4_def cint_arg_channel)

lemma channels_of_rgba:
  assumes "channel r" "channel g" "channel b" "channel a"
  shows "red (qcolor_rgba r g b a) = r" "green (qcolor_rgba r g b a) = g"
    "blue (qcolor_rgba r g b a) = b" "alpha (qcolor_rgba r g b a) = a"
  using assms by (simp_all add: qcolor_rgba_def uint_channel)

lemma getitem_dict: "getitem (PDict d) k = (case map_of d k of None \<Rightarrow> Inl KeyError | Some x \<Rightarrow> Inr x)"
  by (simp add: getitem_def)

lemma load_try_settings_dict:
  assumes "readable fs" "settings_json fs = Some (Document (settings_dict s t c a))"
  shows "load_try fs = Inr (s, t, qcolor_rgba (red c) (green c) (blue c) 255, a)"
  using assms
  by (simp add: load_try_def open_r_def json_load_def settings_dict_def getitem_dict QColor3_channels)

section \<open>The settings store\<close>

text \<open>
  What \<^verbatim>\<open>load_settings\<close> does with a missing file, with a file it may not read,
  and with a file whose \<open>color\<close> has no \<open>g\<close>: the first and the last give the
  defaults, the second raises.
\<close>

lemma load_settings_missing_file:
  "load_settings (fs\<lparr>settings_json := None\<rparr>) = Inr default_settings"
  by (simp add: load_settings_def load_try_def open_r_def)

lemma load_settings_unreadable:
  "load_settings \<lparr>settings_json = Some t, readable = False, writable = w, device_ok = k\<rparr>
     = Inl PermissionError"
  by (simp add: load_settings_def load_try_def open_r_def)

lemma load_settings_missing_g:
  "load_settings \<lparr>settings_json = Some (Document (PDict
       [(''size'', PInt 7), (''thickness'', PInt 4),
        (''color'', PDict [(''r'', PInt 10), (''b'', PInt 30)]),
        (''transparency'', PInt 100)])),
     readable = True, writable = w, device_ok = k\<rparr>
   = Inr (PInt 3, PInt 2, Rgba 255 255 255 255, PInt 255)"
  by (simp add: load_settings_def load_try_def open_r_def json_load_def getitem_dict
      default_settings_def qcolor_rgba_def)

text \<open>
  Claim C1 says that \<^verbatim>\<open>load_settings\<close> never raises and returns the default
  tuple on every failure, malformed JSON included. The \<^verbatim>\<open>except\<close> clause catches
  \<^verbatim>\<open>FileNotFoundError\<close> and \<^verbatim>\<open>KeyError\<close> only, although its comment promises
  the defaults for a file that is corrupt: on a file whose text is not JSON,
  \<^verbatim>\<open>json.load\<close> raises \<^verbatim>\<open>JSONDecodeError\<close> and \<^verbatim>\<open>load_settings\<close> lets it
  through.
\<close>

theorem load_settings_malformed_json:
  "load_settings \<lparr>settings_json = Some Unparsable, readable = True, writable = w, device_ok = k\<rparr>
     = Inl JSONDecodeError"
  by (simp add: load_settings_def load_try_def open_r_def json_load_def)

text \<open>
  Claim C2: for a radius in 1..20, a thickness in 1..10, a transparency in 0..255 and
  an RGB triple with every channel in 0..255, \<^verbatim>\<open>save_settings\<close> followed by
  \<^verbatim>\<open>load_settings\<close> returns the same four values. The file system must let the
  store write the file and read it back.
\<close>

theorem save_then_load_round_trip:
  assumes "in_ranges radius thickness transparency"
    and "channel r" and "channel g" and "channel b"
    and "writable fs" and "device_ok fs" and "readable fs"
  shows "\<exists>fs'. save_settings (PInt radius) (PInt thickness) (qcolor_rgba r g b 255)
                 (PInt transparency) fs = (None, fs') \<and>
               load_settings fs' =
                 Inr (PInt radius, PInt thickness, qcolor_rgba r g b 255, PInt transparency)"
proof -
  let ?c = "qcolor_rgba r g b 255"
  let ?doc = "settings_dict (PInt radius) (PInt thickness) ?c (PInt transparency)"
  let ?fs' = "fs\<lparr>settings_json := Some (Document ?doc)\<rparr>"
  have saved: "save_settings (PInt radius) (PInt thickness) ?c (PInt transparency) fs = (None, ?fs')"
    using assms(5,6) by (simp add: save_settings_def open_w_def json_dump_def)
  have "load_try ?fs' = Inr (PInt radius, PInt thickness,
          qcolor_rgba (red ?c) (green ?c) (blue ?c) 255, PInt transparency)"
    using assms(7) by (intro load_try_settings_dict) simp_all
  then have "load_try ?fs' = Inr (PInt radius, PInt thickness, ?c, PInt transparency)"
    using assms(2-4) by (simp add: channels_of_rgba)
  then have "load_settings ?fs' = Inr (PInt radius, PInt thickness, ?c, PInt transparency)"
    by (simp add: load_settings_def)
  with saved show ?thesis by blast
qed

theorem save_then_load_round_trip_witness:
  "in_ranges 5 3 200 \<and> channel 10 \<and> channel 20 \<and> channel 30 \<and>
   load_settings (snd (save_settings (PInt 5) (PInt 3) (qcolor_rgba 10 20 30 255) (PInt 200)
       \<lparr>settings_json = None, readable = True, writable = True, device_ok = True\<rparr>))
     = Inr (PInt 5, PInt 3, qcolor_rgba 10 20 30 255, PInt 200)"
proof -
  have h: "in_ranges 5 3 200" "channel 10" "channel 20" "channel 30"
    by (simp_all add: in_ranges_def channel_def)
  from save_then_load_round_trip [OF h,
      of "\<lparr>settings_json = None, readable = True, writable = True, device_ok = True\<rparr>"]
  have "load_settings (snd (save_settings (PInt 5) (PInt 3) (qcolor_rgba 10 20 30 255) (PInt 200)
       \<lparr>settings_json = None, readable = True, writable = True, device_ok = True\<rparr>))
     = Inr (PInt 5, PInt 3, qcolor_rgba 10 20 30 255, PInt 200)"
    by auto
  with h show ?thesis by simp
qed

lemma save_settings_written:
  assumes "writable fs" and "device_ok fs"
  shows "save_settings s t c a fs =
           (None, fs\<lparr>settings_json := Some (Document (settings_dict s t c a))\<rparr>)"
  using assms by (simp add: save_settings_def open_w_def json_dump_def)




section \<open>Painting\<close>

text \<open>
  \<^verbatim>\<open>paintEvent\<close> on an overlay whose size, thickness and transparency are integers,
  the last two within the C range.
\<close>

lemma paintEvent_ints:
  assumes "fits_cint t" and "fits_cint a"
  shows "paintEvent \<lparr>overlay_size = PInt s, overlay_thickness = PInt t, overlay_color = c,
                      overlay_transparency = PInt a, overlay_width = w, overlay_height = h,
                      overlay_shown = v\<rparr>
         = andthen (QRect (w div 2 - s) (h div 2 - s) (s * 2) (s * 2)) (\<lambda>rect.
             Inr \<lparr>pen_color = qcolor_rgba 0 0 0 a,
                  pen_width = pen_setWidth t 1,
                  brush_color = qcolor_rgba (red c) (green c) (blue c) a,
                  ellipse_rect = rect\<rparr>)"
proof -
  have fits: "fits_cint 0" "fits_cint (red c)" "fits_cint (green c)" "fits_cint (blue c)"
    by (simp_all add: fits_cint_channel)
  show ?thesis
    using assms fits by (simp add: paintEvent_def QColor4_def cint_arg_def as_int_def)
qed

text \<open>
  Claim C6 says that for every width, height and appearance the routine draws a black
  outline with the given alpha and the thickness as pen width, fills with the given
  colour at the same alpha, and passes the rectangle
  \<open>(cx - size, cy - size, 2 * size, 2 * size)\<close>. The overlay paints whatever the settings
  file gave it: with a transparency of 300 Qt leaves the pen's and the brush's colour
  invalid, and with a thickness of -1 the pen keeps the width 1.
\<close>

theorem paintEvent_out_of_range:
  "map_option (overlay_transparency \<circ> overlay) (alive (main
      \<lparr>tray_available = True, icon_exists = True, screen_size = (1920, 1080),
       files = \<lparr>settings_json = Some (Document (PDict
                  [(''size'', PInt 3), (''thickness'', PInt 2),
                   (''color'', PDict [(''r'', PInt 255), (''g'', PInt 255), (''b'', PInt 255)]),
                   (''transparency'', PInt 300)])),
                readable = True, writable = True, device_ok = True\<rparr>\<rparr> []))
     = Some (PInt 300) \<and>
   paintEvent \<lparr>overlay_size = PInt 3, overlay_thickness = PInt 2,
               overlay_color = Rgba 255 255 255 255, overlay_transparency = PInt 300,
               overlay_width = 1920, overlay_height = 1080, overlay_shown = True\<rparr>
     = Inr \<lparr>pen_color = Invalid_Color, pen_width = 2, brush_color = Invalid_Color,
            ellipse_rect = (957, 537, 6, 6)\<rparr> \<and>
   paintEvent \<lparr>overlay_size = PInt 3, overlay_thickness = PInt (- 1),
               overlay_color = Rgba 255 255 255 255, overlay_transparency = PInt 255,
               overlay_width = 1920, overlay_height = 1080, overlay_shown = True\<rparr>
     = Inr \<lparr>pen_color = Rgba 0 0 0 255, pen_width = 1, brush_color = Rgba 255 255 255 255,
            ellipse_rect = (957, 537, 6, 6)\<rparr>"
  by code_simp

text \<open>
  Claim C6 as amended: for every width \<open>w\<close>, height \<open>h\<close> and appearance of integers,
  \<^verbatim>\<open>paintEvent\<close> draws with a pen that is black with the given alpha and has the
  thickness as its width, with a brush of the given colour at the same alpha, on the
  rectangle \<open>(w div 2 - size, h div 2 - size, 2 * size, 2 * size)\<close>, if and only if the
  transparency is within 0..255, the thickness within 0..32767 and the four numbers of
  the rectangle fit a C \<^verbatim>\<open>int\<close>. Every appearance in the declared ranges, on any
  screen, is such a case; so is a size of 500.
\<close>

theorem paintEvent_draws:
  "paintEvent \<lparr>overlay_size = PInt s, overlay_thickness = PInt t, overlay_color = c,
               overlay_transparency = PInt a, overlay_width = w, overlay_height = h,
               overlay_shown = v\<rparr>
     = Inr \<lparr>pen_color = Rgba 0 0 0 (word_of_int a),
            pen_width = t,
            brush_color = Rgba (word_of_int (red c)) (word_of_int (green c))
                            (word_of_int (blue c)) (word_of_int a),
            ellipse_rect = (w div 2 - s, h div 2 - s, 2 * s, 2 * s)\<rparr>
   \<longleftrightarrow>
   channel a \<and> 0 \<le> t \<and> t < 32768 \<and>
   fits_cint (w div 2 - s) \<and> fits_cint (h div 2 - s) \<and> fits_cint (2 * s)"
  (is "?drawn \<longleftrightarrow> ?cond")
proof
  assume ?cond
  then have a: "channel a" and t: "0 \<le> t" "t < 32768"
    and r: "fits_cint (w div 2 - s)" "fits_cint (h div 2 - s)" "fits_cint (s * 2)"
    by (simp_all add: mult.commute)
  have "fits_cint t" using t by (simp add: fits_cint_def)
  from paintEvent_ints [OF this fits_cint_channel [OF a]] a t r
  show ?drawn
    by (simp add: QRect_def qcolor_rgba_def pen_setWidth_def mult.commute)
next
  assume drawn: ?drawn
  have ft: "fits_cint t"
  proof (rule ccontr)
    assume "\<not> fits_cint t"
    then have "paintEvent \<lparr>overlay_size = PInt s, overlay_thickness = PInt t,
        overlay_color = c, overlay_transparency = PInt a, overlay_width = w,
        overlay_height = h, overlay_shown = v\<rparr> = Inl OverflowError
      \<or> paintEvent \<lparr>overlay_size = PInt s, overlay_thickness = PInt t,
        overlay_color = c, overlay_transparency = PInt a, overlay_width = w,
        overlay_height = h, overlay_shown = v\<rparr> = Inl TypeError"
      by (simp add: paintEvent_def QColor4_def cint_arg_def as_int_def fits_cint_channel
          split: if_splits)
    with drawn show False by auto
  qed
  have fa: "fits_cint a"
  proof (rule ccontr)
    assume "\<not> fits_cint a"
    then have "paintEvent \<lparr>overlay_size = PInt s, overlay_thickness = PInt t,
        overlay_color = c, overlay_transparency = PInt a, overlay_width = w,
        overlay_height = h, overlay_shown = v\<rparr> = Inl OverflowError"
      by (simp add: paintEvent_def QColor4_def cint_arg_def as_int_def fits_cint_channel)
    with drawn show False by simp
  qed
  from drawn paintEvent_ints [OF ft fa, of s c w h v]
  have rect: "fits_cint (w div 2 - s)" "fits_cint (h div 2 - s)" "fits_cint (s * 2)"
    and pen: "qcolor_rgba 0 0 0 a = Rgba 0 0 0 (word_of_int a)"
    and width: "pen_setWidth t 1 = t"
    by (auto simp: QRect_def split: if_splits)
  from pen have "channel a"
    by (auto simp: qcolor_rgba_def split: if_splits)
  moreover from width drawn have "0 \<le> t \<and> t < 32768"
    by (auto simp: pen_setWidth_def split: if_splits)
  ultimately show ?cond
    using rect by (simp add: mult.commute)
qed

theorem paintEvent_draws_witness:
  "paintEvent \<lparr>overlay_size = PInt 3, overlay_thickness = PInt 2,
               overlay_color = Rgba 255 0 0 255, overlay_transparency = PInt 255,
               overlay_width = 1921, overlay_height = 1080, overlay_shown = True\<rparr>
     = Inr \<lparr>pen_color = Rgba 0 0 0 255, pen_width = 2, brush_color = Rgba 255 0 0 255,
            ellipse_rect = (957, 537, 6, 6)\<rparr> \<and>
   paintEvent \<lparr>overlay_size = PInt 500, overlay_thickness = PInt 2,
               overlay_color = Rgba 255 0 0 255, overlay_transparency = PInt 255,
               overlay_width = 1921, overlay_height = 1080, overlay_shown = True\<rparr>
     = Inr \<lparr>pen_color = Rgba 0 0 0 255, pen_width = 2, brush_color = Rgba 255 0 0 255,
            ellipse_rect = (460, 40, 1000, 1000)\<rparr>"
proof -
  have c: "channel 255" "(0::int) \<le> 2" "(2::int) < 32768"
    by (simp_all add: channel_def)
  have small: "fits_cint (1921 div 2 - 3)" "fits_cint (1080 div 2 - 3)" "fits_cint (2 * 3)"
    by (simp_all add: fits_cint_def)
  have large: "fits_cint (1921 div 2 - 500)" "fits_cint (1080 div 2 - 500)"
    "fits_cint (2 * 500)"
    by (simp_all add: fits_cint_def)
  from paintEvent_draws [of 3 2 "Rgba 255 0 0 255" 255 1921 1080 True]
    paintEvent_draws [of 500 2 "Rgba 255 0 0 255" 255 1921 1080 True] c small large
  show ?thesis by simp
qed

section \<open>Sliders and the dialog\<close>

lemma setValue_ok: "slider_ok lo hi s \<Longrightarrow> slider_ok lo hi (setValue v s)"
  by (auto simp: slider_ok_def setValue_def bound_def)

lemma setValue_fixed: "slider_ok lo hi s \<Longrightarrow> setValue (slider_value s) s = s"
  by (auto simp: slider_ok_def setValue_def bound_def)

lemma slider_ok_eq:
  "slider_ok lo hi s \<Longrightarrow>
     \<lparr>slider_minimum = lo, slider_maximum = hi, slider_value = slider_value s\<rparr> = s"
  by (simp add: slider_ok_def)

lemma new_slider:
  assumes "lo \<le> hi"
  shows "setValue i (setMaximum hi (setMinimum lo QSlider))
         = \<lparr>slider_minimum = lo, slider_maximum = hi, slider_value = max lo (min hi i)\<rparr>"
  using assms
  by (simp add: setValue_def setMaximum_def setMinimum_def setRange_def QSlider_def bound_def
      Let_def max_def min_def)

lemma make_slider_Inr:
  assumes "lo \<le> hi" and "make_slider lo hi v = Inr s"
  shows "\<exists>i. cint_arg v = Inr i \<and>
           s = \<lparr>slider_minimum = lo, slider_maximum = hi, slider_value = max lo (min hi i)\<rparr>"
proof (cases "cint_arg v")
  case (Inl e)
  with assms(2) show ?thesis by (simp add: make_slider_def)
next
  case (Inr i)
  with assms show ?thesis by (auto simp: make_slider_def new_slider)
qed

lemma make_slider_ok:
  assumes "lo \<le> hi" and "make_slider lo hi v = Inr s"
  shows "slider_ok lo hi s"
  using make_slider_Inr [OF assms] assms(1) by (auto simp: slider_ok_def)

lemma make_slider_between:
  assumes "lo \<le> hi" and "fits_cint lo" and "fits_cint hi" and "int_between lo hi v"
  shows "\<exists>i. v = PInt i \<and> lo \<le> i \<and> i \<le> hi \<and> make_slider lo hi v
           = Inr \<lparr>slider_minimum = lo, slider_maximum = hi, slider_value = i\<rparr>"
proof -
  from assms(4) obtain i where v: "v = PInt i" and i: "lo \<le> i" "i \<le> hi"
    by (cases v) (simp_all add: int_between_def)
  have "fits_cint i"
    using i assms(2,3) by (simp add: fits_cint_def)
  then have "make_slider lo hi v = Inr (setValue i (setMaximum hi (setMinimum lo QSlider)))"
    by (simp add: make_slider_def cint_arg_def as_int_def v)
  then show ?thesis
    using v i assms(1) by (simp add: new_slider)
qed

lemma SettingsWindow_Inr:
  assumes "SettingsWindow n ov = Inr d"
  shows "dialog_ok d \<and> dialog_id d = n \<and> dialog_color d = overlay_color ov \<and> \<not> dialog_shown d"
proof -
  from assms obtain s1 s2 s3 where
    s1: "make_slider 1 20 (overlay_size ov) = Inr s1" and
    s2: "make_slider 1 10 (overlay_thickness ov) = Inr s2" and
    s3: "make_slider 0 255 (overlay_transparency ov) = Inr s3" and
    d: "d = \<lparr>size_slider = s1, thickness_slider = s2, transparency_slider = s3,
             dialog_color = overlay_color ov, dialog_shown = False, dialog_id = n\<rparr>"
    by (auto simp: SettingsWindow_def andthen_def split: sum.splits)
  have "slider_ok 1 20 s1" "slider_ok 1 10 s2" "slider_ok 0 255 s3"
    using make_slider_ok [OF _ s1] make_slider_ok [OF _ s2] make_slider_ok [OF _ s3] by simp_all
  then show ?thesis by (simp add: d dialog_ok_def)
qed

lemma SettingsWindow_ok:
  assumes "appearance_ok ov"
  shows "\<exists>s t a. appearance ov = (PInt s, PInt t, overlay_color ov, PInt a) \<and> in_ranges s t a \<and>
           SettingsWindow n ov =
             Inr \<lparr>size_slider = \<lparr>slider_minimum = 1, slider_maximum = 20, slider_value = s\<rparr>,
                  thickness_slider = \<lparr>slider_minimum = 1, slider_maximum = 10, slider_value = t\<rparr>,
                  transparency_slider =
                    \<lparr>slider_minimum = 0, slider_maximum = 255, slider_value = a\<rparr>,
                  dialog_color = overlay_color ov, dialog_shown = False, dialog_id = n\<rparr>"
proof -
  have c: "fits_cint 0" "fits_cint 1" "fits_cint 10" "fits_cint 20" "fits_cint 255"
    by (simp_all add: fits_cint_def)
  from assms obtain s where s: "overlay_size ov = PInt s" "1 \<le> s" "s \<le> 20"
    "make_slider 1 20 (overlay_size ov)
       = Inr \<lparr>slider_minimum = 1, slider_maximum = 20, slider_value = s\<rparr>"
    using make_slider_between [of 1 20 "overlay_size ov"] c
    by (auto simp: appearance_ok_def)
  from assms obtain t where t: "overlay_thickness ov = PInt t" "1 \<le> t" "t \<le> 10"
    "make_slider 1 10 (overlay_thickness ov)
       = Inr \<lparr>slider_minimum = 1, slider_maximum = 10, slider_value = t\<rparr>"
    using make_slider_between [of 1 10 "overlay_thickness ov"] c
    by (auto simp: appearance_ok_def)
  from assms obtain a where a: "overlay_transparency ov = PInt a" "0 \<le> a" "a \<le> 255"
    "make_slider 0 255 (overlay_transparency ov)
       = Inr \<lparr>slider_minimum = 0, slider_maximum = 255, slider_value = a\<rparr>"
    using make_slider_between [of 0 255 "overlay_transparency ov"] c
    by (auto simp: appearance_ok_def)
  show ?thesis
    using s t a by (simp add: SettingsWindow_def appearance_def in_ranges_def)
qed

lemma update_settings_ok: "dialog_ok d \<Longrightarrow> appearance_ok (update_settings d ov)"
  by (simp add: dialog_ok_def slider_ok_def appearance_ok_def update_settings_def
      set_crosshair_properties_def int_between_def)

lemma update_settings_shown [simp]:
  "overlay_shown (update_settings d ov) = overlay_shown ov"
  by (simp add: update_settings_def set_crosshair_properties_def)

lemma update_settings_twice [simp]:
  "update_settings d (update_settings d ov) = update_settings d ov"
  by (simp add: update_settings_def set_crosshair_properties_def)

lemma update_settings_appearance:
  "appearance (update_settings d ov) =
     (PInt (slider_value (size_slider d)), PInt (slider_value (thickness_slider d)),
      dialog_color d, PInt (slider_value (transparency_slider d)))"
  by (simp add: appearance_def update_settings_def set_crosshair_properties_def)

lemma appearance_ok_cong:
  "appearance ov' = appearance ov \<Longrightarrow> appearance_ok ov' = appearance_ok ov"
  by (simp add: appearance_def appearance_ok_def)

lemma put_slider_ok:
  "dialog_ok d \<Longrightarrow> dialog_ok (put_slider which (setValue pos (get_slider which d)) d)"
  by (cases which) (simp_all add: dialog_ok_def setValue_ok)

lemma slider_moved_cases:
  assumes "slider_moved which pos d ov = (d', ov')"
  shows "(d' = d \<and> ov' = ov) \<or>
         (d' = put_slider which (setValue pos (get_slider which d)) d \<and>
          ov' = update_settings d' ov)"
  using assms by (auto simp: slider_moved_def Let_def split: if_splits)

lemma open_color_dialog_cases:
  assumes "open_color_dialog chosen d ov = (d', ov')"
  shows "(d' = d \<and> ov' = ov \<and> \<not> isValid chosen) \<or>
         (d' = d\<lparr>dialog_color := chosen\<rparr> \<and> ov' = update_settings d' ov \<and> isValid chosen)"
  using assms by (auto simp: open_color_dialog_def Let_def split: if_splits)

lemma dialog_ok_color [simp]: "dialog_ok (d\<lparr>dialog_color := c\<rparr>) = dialog_ok d"
  by (simp add: dialog_ok_def)

lemma dialog_ok_shown [simp]: "dialog_ok (d\<lparr>dialog_shown := b\<rparr>) = dialog_ok d"
  by (simp add: dialog_ok_def)

lemma put_slider_id [simp]: "dialog_id (put_slider which s d) = dialog_id d"
  by (cases which) simp_all

lemma apply_settings_cases:
  assumes "apply_settings d ov fs = (raised, d', ov', fs')"
  shows "ov' = update_settings d ov \<and>
         (raised, fs') = save_settings (overlay_size ov') (overlay_thickness ov')
                           (overlay_color ov') (overlay_transparency ov') fs \<and>
         d' = (if raised = None then d\<lparr>dialog_shown := False\<rparr> else d)"
  using assms by (auto simp: apply_settings_def Let_def split: prod.splits option.splits)

lemma apply_settings_written:
  assumes "writable fs" and "device_ok fs"
  shows "apply_settings d ov fs =
           (None, d\<lparr>dialog_shown := False\<rparr>, update_settings d ov,
            fs\<lparr>settings_json := Some (Document (settings_dict
                 (PInt (slider_value (size_slider d)))
                 (PInt (slider_value (thickness_slider d)))
                 (dialog_color d)
                 (PInt (slider_value (transparency_slider d)))))\<rparr>)"
  using assms
  by (simp add: apply_settings_def save_settings_written Let_def update_settings_def
      set_crosshair_properties_def)

section \<open>Events\<close>

lemma toggle_overlay_fields [simp]:
  "settings_window (toggle_overlay st) = settings_window st"
  "dialogs_made (toggle_overlay st) = dialogs_made st"
  "disk (toggle_overlay st) = disk st"
  "is_overlay_visible (toggle_overlay st) = (\<not> is_overlay_visible st)"
  "overlay_shown (overlay (toggle_overlay st)) = (\<not> is_overlay_visible st)"
  "toggle_action_text (toggle_overlay st) =
     (if is_overlay_visible st then ''Show Crosshair'' else ''Hide Crosshair'')"
  "appearance (overlay (toggle_overlay st)) = appearance (overlay st)"
  "appearance_ok (overlay (toggle_overlay st)) = appearance_ok (overlay st)"
  by (simp_all add: toggle_overlay_def overlay_hide_def overlay_show_def appearance_def
      appearance_ok_def Let_def)

lemma toggle_overlay_inv: "run_inv loaded st \<Longrightarrow> run_inv loaded (toggle_overlay st)"
  by (simp add: run_inv_def dialog_inv_def tray_inv_def split: option.splits)

lemma open_settings_Inr:
  assumes "open_settings st = Inr st'"
  shows "\<exists>w. SettingsWindow (Suc (dialogs_made st)) (overlay st) = Inr w \<and>
           st' = st\<lparr>settings_window := Some (w\<lparr>dialog_shown := True\<rparr>),
                     dialogs_made := Suc (dialogs_made st)\<rparr>"
  using assms by (auto simp: open_settings_def andthen_def split: sum.splits)

lemma open_settings_inv:
  assumes "run_inv loaded st" and "open_settings st = Inr st'"
  shows "run_inv loaded st'"
proof -
  from open_settings_Inr [OF assms(2)] obtain w where
    w: "SettingsWindow (Suc (dialogs_made st)) (overlay st) = Inr w" and
    st': "st' = st\<lparr>settings_window := Some (w\<lparr>dialog_shown := True\<rparr>),
                   dialogs_made := Suc (dialogs_made st)\<rparr>"
    by blast
  from SettingsWindow_Inr [OF w] have "dialog_ok w" "dialog_id w = Suc (dialogs_made st)"
    by simp_all
  with assms(1) show ?thesis
    by (simp add: st' run_inv_def dialog_inv_def tray_inv_def)
qed

lemma on_dialog_hidden:
  assumes "settings_window st = None \<or> (\<exists>d. settings_window st = Some d \<and> \<not> dialog_shown d)"
  shows "on_dialog f st = Handled st"
  using assms by (auto simp: on_dialog_def)

lemma on_dialog_shown:
  assumes "settings_window st = Some d" and "dialog_shown d"
  shows "on_dialog f st = f d st"
  using assms by (simp add: on_dialog_def)

lemma dialog_absent:
  assumes "\<nexists>d. settings_window st = Some d \<and> dialog_shown d"
  shows "dispatch (Slider_moved which pos) st = Handled st"
    and "dispatch (Color_button chosen) st = Handled st"
    and "dispatch Apply_button st = Handled st"
  using assms by (auto simp: on_dialog_def split: option.splits)

lemma dispatch_Slider_moved:
  assumes "settings_window st = Some d" and "dialog_shown d"
  shows "dispatch (Slider_moved which pos) st =
           Handled (st\<lparr>overlay := snd (slider_moved which pos d (overlay st)),
                        settings_window := Some (fst (slider_moved which pos d (overlay st)))\<rparr>)"
  using assms by (simp add: on_dialog_def case_prod_beta)

lemma dispatch_Color_button:
  assumes "settings_window st = Some d" and "dialog_shown d"
  shows "dispatch (Color_button chosen) st =
           Handled (st\<lparr>overlay := snd (open_color_dialog chosen d (overlay st)),
                        settings_window := Some (fst (open_color_dialog chosen d (overlay st)))\<rparr>)"
  using assms by (simp add: on_dialog_def case_prod_beta)

lemma dispatch_Apply_button:
  assumes "settings_window st = Some d" and "dialog_shown d"
    and "apply_settings d (overlay st) (disk st) = (raised, d', ov', fs')"
  shows "dispatch Apply_button st =
           (case raised of
              Some e \<Rightarrow> Raised e (st\<lparr>overlay := ov', settings_window := Some d', disk := fs'\<rparr>)
            | None \<Rightarrow> Handled (st\<lparr>overlay := ov', settings_window := Some d', disk := fs'\<rparr>))"
  using assms by (simp add: on_dialog_def Let_def)

lemma dialog_update_inv:
  assumes "run_inv loaded st" and "settings_window st = Some d"
    and "dialog_ok d' \<and> dialog_id d' = dialog_id d"
    and "ov' = overlay st \<or> ov' = update_settings d' (overlay st)"
  shows "run_inv loaded (st\<lparr>overlay := ov', settings_window := Some d'\<rparr>)"
    and "run_inv loaded (st\<lparr>overlay := ov', settings_window := Some d', disk := fs'\<rparr>)"
  using assms update_settings_ok [of d' "overlay st"]
  by (auto simp: run_inv_def dialog_inv_def tray_inv_def)

text \<open>
  Every handled event keeps the three facts of \<open>run_inv\<close>, and so does a run of
  the event loop.
\<close>

lemma dispatch_inv:
  assumes "run_inv loaded st" and "dispatch e st = Handled st'"
  shows "run_inv loaded st'"
proof (cases "\<exists>d. settings_window st = Some d \<and> dialog_shown d")
  case False
  then have absent: "\<nexists>d. settings_window st = Some d \<and> dialog_shown d" .
  show ?thesis
  proof (cases e)
    case Toggle_action
    with assms show ?thesis by (auto simp: toggle_overlay_inv)
  next
    case Settings_action
    with assms show ?thesis by (auto split: sum.splits intro: open_settings_inv)
  next
    case Exit_action
    with assms show ?thesis by simp
  next
    case (Tray_activated reason)
    with assms show ?thesis by (auto simp: on_tray_icon_activated_def toggle_overlay_inv)
  next
    case (Slider_moved which pos)
    with assms dialog_absent(1) [OF absent] show ?thesis by simp
  next
    case (Color_button chosen)
    with assms dialog_absent(2) [OF absent] show ?thesis by simp
  next
    case Apply_button
    with assms dialog_absent(3) [OF absent] show ?thesis by simp
  qed
next
  case True
  then obtain d where d: "settings_window st = Some d" and shown: "dialog_shown d"
    by blast
  from assms(1) d have ok: "dialog_ok d" by (simp add: run_inv_def dialog_inv_def)
  show ?thesis
  proof (cases e)
    case Toggle_action
    with assms show ?thesis by (auto simp: toggle_overlay_inv)
  next
    case Settings_action
    with assms show ?thesis by (auto split: sum.splits intro: open_settings_inv)
  next
    case Exit_action
    with assms show ?thesis by simp
  next
    case (Tray_activated reason)
    with assms show ?thesis by (auto simp: on_tray_icon_activated_def toggle_overlay_inv)
  next
    case (Slider_moved which pos)
    obtain d' ov' where m: "slider_moved which pos d (overlay st) = (d', ov')"
      by (cases "slider_moved which pos d (overlay st)")
    from Slider_moved assms(2) dispatch_Slider_moved [OF d shown, of which pos] m
    have st': "st' = st\<lparr>overlay := ov', settings_window := Some d'\<rparr>" by simp
    from slider_moved_cases [OF m] ok
    have "dialog_ok d' \<and> dialog_id d' = dialog_id d"
      and "ov' = overlay st \<or> ov' = update_settings d' (overlay st)"
      by (auto simp: put_slider_ok)
    from dialog_update_inv(1) [OF assms(1) d this] show ?thesis by (simp add: st')
  next
    case (Color_button chosen)
    obtain d' ov' where m: "open_color_dialog chosen d (overlay st) = (d', ov')"
      by (cases "open_color_dialog chosen d (overlay st)")
    from Color_button assms(2) dispatch_Color_button [OF d shown, of chosen] m
    have st': "st' = st\<lparr>overlay := ov', settings_window := Some d'\<rparr>" by simp
    from open_color_dialog_cases [OF m] ok
    have "dialog_ok d' \<and> dialog_id d' = dialog_id d"
      and "ov' = overlay st \<or> ov' = update_settings d' (overlay st)"
      by auto
    from dialog_update_inv(1) [OF assms(1) d this] show ?thesis by (simp add: st')
  next
    case Apply_button
    obtain raised d' ov' fs' where
      m: "apply_settings d (overlay st) (disk st) = (raised, d', ov', fs')"
      by (cases "apply_settings d (overlay st) (disk st)")
    from Apply_button assms(2) dispatch_Apply_button [OF d shown m]
    have st': "st' = st\<lparr>overlay := ov', settings_window := Some d', disk := fs'\<rparr>"
      by (simp split: option.splits)
    from apply_settings_cases [OF m] ok
    have "dialog_ok d' \<and> dialog_id d' = dialog_id d"
      and "ov' = overlay st \<or> ov' = update_settings d' (overlay st)"
      by (auto simp: update_settings_def)
    from dialog_update_inv(2) [OF assms(1) d this] show ?thesis by (simp add: st')
  qed
qed

lemma app_exec_inv:
  assumes "run_inv loaded st" and "app_exec st events = Looping st'"
  shows "run_inv loaded st'"
  using assms
proof (induction events arbitrary: st)
  case Nil
  then show ?case by simp
next
  case (Cons e es)
  then show ?case
    by (auto split: step.splits dest: dispatch_inv)
qed

lemma hidden_dialog_run:
  assumes "settings_window st = Some d" and "\<not> dialog_shown d"
    and "list_all no_open_or_exit events"
  shows "\<exists>st'. app_exec st events = Looping st' \<and> settings_window st' = Some d \<and>
           appearance (overlay st') = appearance (overlay st) \<and>
           dialogs_made st' = dialogs_made st \<and> disk st' = disk st"
  using assms
proof (induction events arbitrary: st)
  case Nil
  then show ?case by simp
next
  case (Cons e es)
  have absent: "\<nexists>d. settings_window st = Some d \<and> dialog_shown d"
    using Cons.prems(1,2) by simp
  have "\<exists>st1. dispatch e st = Handled st1 \<and> settings_window st1 = Some d \<and>
          appearance (overlay st1) = appearance (overlay st) \<and>
          dialogs_made st1 = dialogs_made st \<and> disk st1 = disk st"
  proof (cases e)
    case (Tray_activated reason)
    then show ?thesis using Cons.prems(1) by (simp add: on_tray_icon_activated_def)
  qed (use Cons.prems dialog_absent [OF absent] in \<open>simp_all add: no_open_or_exit_def\<close>)
  then obtain st1 where st1: "dispatch e st = Handled st1" "settings_window st1 = Some d"
    "appearance (overlay st1) = appearance (overlay st)"
    "dialogs_made st1 = dialogs_made st" "disk st1 = disk st"
    by blast
  from Cons.IH [OF st1(2) Cons.prems(2)] Cons.prems(3) obtain st' where
    "app_exec st1 es = Looping st'" "settings_window st' = Some d"
    "appearance (overlay st') = appearance (overlay st1)"
    "dialogs_made st' = dialogs_made st1" "disk st' = disk st1"
    by auto
  with st1 show ?case by simp
qed

section \<open>Start-up and exit\<close>

lemma script_loaded:
  assumes "tray_available env" and "icon_exists env" and "load_settings (files env) = Inr loaded"
  shows "script env events =
           (case app_exec (started env loaded) events of
              Returned rc st \<Rightarrow> Inl (SystemExit (Some rc))
            | running \<Rightarrow> Inr running)"
  using assms
  by (cases loaded)
     (simp add: script_def started_def SystemTrayIcon_def CrosshairOverlay_def overlay_show_def
       sys_exit_def Let_def split: loop.splits)

lemma main_loaded:
  assumes "tray_available env" and "icon_exists env" and "load_settings (files env) = Inr loaded"
  shows "main env events =
           (case app_exec (started env loaded) events of
              Looping st \<Rightarrow> Alive st
            | Returned rc st \<Rightarrow> Exit_status rc
            | Died e st \<Rightarrow> Aborted e)"
  using script_loaded [OF assms, of events]
  by (simp add: main_def split: loop.splits)

lemma main_Alive:
  assumes "main env events = Alive st"
  shows "\<exists>loaded. load_settings (files env) = Inr loaded \<and>
           app_exec (started env loaded) events = Looping st"
proof -
  have tray: "tray_available env"
    using assms by (auto simp: main_def script_def sys_exit_def split: if_splits)
  obtain loaded where loaded: "load_settings (files env) = Inr loaded"
    using assms tray
    by (cases "load_settings (files env)")
       (auto simp: main_def script_def split: exn.splits option.splits)
  have icon: "icon_exists env"
  proof (rule ccontr)
    assume "\<not> icon_exists env"
    then have "main env events = Exit_status 1"
      using tray loaded
      by (cases loaded)
         (simp add: main_def script_def SystemTrayIcon_def sys_exit_def Let_def)
    with assms show False by simp
  qed
  from main_loaded [OF tray icon loaded, of events] assms
  have "app_exec (started env loaded) events = Looping st"
    by (simp split: loop.splits)
  with loaded show ?thesis by blast
qed

lemma started_inv: "run_inv loaded (started env loaded)"
  by (cases loaded)
     (simp add: run_inv_def dialog_inv_def tray_inv_def started_def appearance_def)

lemma main_Alive_inv:
  assumes "main env events = Alive st"
  shows "\<exists>loaded. load_settings (files env) = Inr loaded \<and> run_inv loaded st"
  using main_Alive [OF assms] app_exec_inv [OF started_inv] by blast

lemma desktop_idle: "main desktop [] = Alive idle"
  by code_simp

lemma desktop_opened: "main desktop [Settings_action] = Alive opened"
  by code_simp

lemma idle_opened: "open_settings idle = Inr opened"
  by code_simp

text \<open>
  Claim C3 says that the exit code is 0 exactly on the tray menu's Exit and non-zero
  when the icon is missing and when there is no system tray. The icon's path calls
  \<^verbatim>\<open>sys.exit(1)\<close>; the tray's path calls \<^verbatim>\<open>sys.exit()\<close> without an
  argument, and the process ends with status 0, whatever the rest of the environment
  and the events.
\<close>

theorem exit_status_without_tray:
  "main (env\<lparr>tray_available := False\<rparr>) events = Exit_status 0"
  by (simp add: main_def script_def sys_exit_def)

text \<open>
  The two other ways out: a missing icon ends the process with status 1, and the
  Exit menu item, whenever the loop reaches it, with status 0.
\<close>

lemma exit_status_missing_icon:
  assumes "tray_available env" and "\<not> icon_exists env"
    and "load_settings (files env) = Inr loaded"
  shows "main env events = Exit_status 1"
  using assms
  by (cases loaded) (simp add: main_def script_def SystemTrayIcon_def sys_exit_def Let_def)

lemma exit_status_exit_action:
  assumes "main env events = Alive st"
  shows "main env (events @ Exit_action # rest) = Exit_status 0"
proof -
  have run: "app_exec s (evs @ Exit_action # rest) = Returned 0 (exit_app s')"
    if "app_exec s evs = Looping s'" for s s' evs
    using that by (induction evs arbitrary: s) (auto split: step.splits)
  from main_Alive [OF assms] obtain loaded where
    loaded: "load_settings (files env) = Inr loaded" and
    loop: "app_exec (started env loaded) events = Looping st"
    by blast
  have env: "tray_available env" "icon_exists env"
  proof -
    show "tray_available env"
      using assms by (auto simp: main_def script_def sys_exit_def split: if_splits)
    show "icon_exists env"
    proof (rule ccontr)
      assume "\<not> icon_exists env"
      from exit_status_missing_icon [OF \<open>tray_available env\<close> this loaded] assms
      show False by simp
    qed
  qed
  from main_loaded [OF env loaded] run [OF loop] show ?thesis by simp
qed

section \<open>The appearance while the program runs\<close>

text \<open>
  Claim C4 says that the four appearance attributes are in their ranges after every
  operation that produces or changes them, \<^verbatim>\<open>load_settings\<close> at start-up
  included, so that the overlay never holds a value out of range.
  \<^verbatim>\<open>load_settings\<close> returns what the file holds and checks nothing, and the
  overlay's constructor stores it: started on a file whose \<open>size\<close> is 500, the
  overlay holds the size 500.
\<close>

theorem loaded_size_out_of_range:
  "map_option (overlay_size \<circ> overlay) (alive (main
      \<lparr>tray_available = True, icon_exists = True, screen_size = (1920, 1080),
       files = \<lparr>settings_json = Some (Document (PDict
                  [(''size'', PInt 500), (''thickness'', PInt 2),
                   (''color'', PDict [(''r'', PInt 255), (''g'', PInt 255), (''b'', PInt 255)]),
                   (''transparency'', PInt 255)])),
                readable = True, writable = True, device_ok = True\<rparr>\<rparr> []))
     = Some (PInt 500) \<and>
   map_option (appearance_ok \<circ> overlay) (alive (main
      \<lparr>tray_available = True, icon_exists = True, screen_size = (1920, 1080),
       files = \<lparr>settings_json = Some (Document (PDict
                  [(''size'', PInt 500), (''thickness'', PInt 2),
                   (''color'', PDict [(''r'', PInt 255), (''g'', PInt 255), (''b'', PInt 255)]),
                   (''transparency'', PInt 255)])),
                readable = True, writable = True, device_ok = True\<rparr>\<rparr> []))
     = Some False"
  by code_simp

text \<open>
  Claim C4 as amended: while the program runs, the overlay's appearance is in range
  (size 1..20, thickness 1..10, every colour channel 0..255, transparency 0..255) or
  it is still the tuple that \<^verbatim>\<open>load_settings\<close> returned at start-up; and every
  update from the dialog (a slider move, an accepted colour, Apply: each one a call
  of \<^verbatim>\<open>update_settings\<close>) leaves it in range.
\<close>

theorem appearance_invariant:
  assumes "main env events = Alive st"
  shows "(appearance_ok (overlay st) \<or>
          load_settings (files env) = Inr (appearance (overlay st))) \<and>
         (case settings_window st of
            None \<Rightarrow> True
          | Some d \<Rightarrow> appearance_ok (update_settings d (overlay st)))"
proof -
  from main_Alive_inv [OF assms] obtain loaded where
    loaded: "load_settings (files env) = Inr loaded" and inv: "run_inv loaded st"
    by blast
  from inv loaded have "appearance_ok (overlay st) \<or>
      load_settings (files env) = Inr (appearance (overlay st))"
    by (auto simp: run_inv_def)
  moreover from inv have "case settings_window st of
      None \<Rightarrow> True | Some d \<Rightarrow> appearance_ok (update_settings d (overlay st))"
    by (auto simp: run_inv_def dialog_inv_def update_settings_ok split: option.splits)
  ultimately show ?thesis by simp
qed

theorem appearance_invariant_witness:
  "main desktop [Settings_action] = Alive opened \<and> appearance_ok (overlay opened)"
proof -
  have run: "main desktop [Settings_action] = Alive opened" by code_simp
  have "\<not> load_settings (files desktop) = Inr (appearance (overlay opened)) \<or> appearance_ok (overlay opened)"
    by code_simp
  with appearance_invariant [OF run] run show ?thesis by blast
qed

section \<open>The dialog\<close>





text \<open>
  Claim C8: whenever \<^verbatim>\<open>open_settings\<close> opens the dialog, whatever dialog was
  there before and whether the overlay is shown or hidden, the three sliders hold the
  overlay's size, thickness and transparency (bounded to the slider's range, which
  changes nothing for a value in range), the held colour is the overlay's colour, and
  the file plays no part: with any other file system the same dialog opens.
\<close>

theorem open_settings_seeds_from_overlay:
  assumes "open_settings st = Inr st'"
  shows "\<exists>d s t a.
           settings_window st' = Some d \<and> dialog_shown d \<and>
           cint_arg (overlay_size (overlay st)) = Inr s \<and>
           cint_arg (overlay_thickness (overlay st)) = Inr t \<and>
           cint_arg (overlay_transparency (overlay st)) = Inr a \<and>
           slider_value (size_slider d) = max 1 (min 20 s) \<and>
           slider_value (thickness_slider d) = max 1 (min 10 t) \<and>
           slider_value (transparency_slider d) = max 0 (min 255 a) \<and>
           dialog_color d = overlay_color (overlay st) \<and>
           overlay st' = overlay st \<and>
           (\<forall>fs. open_settings (st\<lparr>disk := fs\<rparr>) = Inr (st'\<lparr>disk := fs\<rparr>))"
proof -
  from open_settings_Inr [OF assms] obtain w where
    w: "SettingsWindow (Suc (dialogs_made st)) (overlay st) = Inr w" and
    st': "st' = st\<lparr>settings_window := Some (w\<lparr>dialog_shown := True\<rparr>),
                   dialogs_made := Suc (dialogs_made st)\<rparr>"
    by blast
  from w obtain s1 s2 s3 where
    s1: "make_slider 1 20 (overlay_size (overlay st)) = Inr s1" and
    s2: "make_slider 1 10 (overlay_thickness (overlay st)) = Inr s2" and
    s3: "make_slider 0 255 (overlay_transparency (overlay st)) = Inr s3" and
    d: "w = \<lparr>size_slider = s1, thickness_slider = s2, transparency_slider = s3,
             dialog_color = overlay_color (overlay st), dialog_shown = False,
             dialog_id = Suc (dialogs_made st)\<rparr>"
    by (auto simp: SettingsWindow_def andthen_def split: sum.splits)
  from make_slider_Inr [OF _ s1] obtain s where
    s: "cint_arg (overlay_size (overlay st)) = Inr s" "slider_value s1 = max 1 (min 20 s)"
    by auto
  from make_slider_Inr [OF _ s2] obtain t where
    t: "cint_arg (overlay_thickness (overlay st)) = Inr t" "slider_value s2 = max 1 (min 10 t)"
    by auto
  from make_slider_Inr [OF _ s3] obtain a where
    a: "cint_arg (overlay_transparency (overlay st)) = Inr a"
       "slider_value s3 = max 0 (min 255 a)"
    by auto
  have "open_settings (st\<lparr>disk := fs\<rparr>) = Inr (st'\<lparr>disk := fs\<rparr>)" for fs
    using w by (simp add: open_settings_def st')
  then show ?thesis
    using s t a by (simp add: st' d)
qed

theorem open_settings_seeds_from_overlay_witness:
  "open_settings idle = Inr opened \<and>
   settings_window opened = Some first_dialog \<and>
   slider_value (size_slider first_dialog) = 3 \<and>
   slider_value (thickness_slider first_dialog) = 2 \<and>
   slider_value (transparency_slider first_dialog) = 255 \<and>
   dialog_color first_dialog = overlay_color (overlay idle) \<and>
   open_settings (idle\<lparr>disk := \<lparr>settings_json = Some Unparsable, readable = False,
                                 writable = False, device_ok = False\<rparr>\<rparr>)
     = Inr (opened\<lparr>disk := \<lparr>settings_json = Some Unparsable, readable = False,
                              writable = False, device_ok = False\<rparr>\<rparr>)"
proof -
  have run: "open_settings idle = Inr opened" by code_simp
  have rest: "settings_window opened = Some first_dialog"
    "slider_value (size_slider first_dialog) = 3"
    "slider_value (thickness_slider first_dialog) = 2"
    "slider_value (transparency_slider first_dialog) = 255"
    "dialog_color first_dialog = overlay_color (overlay idle)"
    by (simp_all add: opened_def first_dialog_def idle_def)
  from open_settings_seeds_from_overlay [OF run] run rest show ?thesis by auto
qed

text \<open>
  Claim C9 says that opening Settings after Apply shows the same dialog object
  again. \<^verbatim>\<open>open_settings\<close> calls the constructor every time: the dialog that
  Apply hid is the first object constructed, the one shown afterwards is the
  second.
\<close>

theorem reopen_makes_new_dialog:
  "settings_window_id (main
      \<lparr>tray_available = True, icon_exists = True, screen_size = (1920, 1080),
       files = \<lparr>settings_json = None, readable = True, writable = True, device_ok = True\<rparr>\<rparr>
      [Settings_action, Apply_button]) = Some 1 \<and>
   settings_window_id (main
      \<lparr>tray_available = True, icon_exists = True, screen_size = (1920, 1080),
       files = \<lparr>settings_json = None, readable = True, writable = True, device_ok = True\<rparr>\<rparr>
      [Settings_action, Apply_button, Settings_action]) = Some 2"
  by code_simp

text \<open>
  Claim C9 as amended: Apply hides the dialog and keeps the object; the next time
  Settings is opened, after any events other than Settings and Exit, a new dialog
  object is constructed, and it is shown with the slider positions and the colour that
  the applied dialog had.
\<close>

theorem apply_then_reopen:
  assumes "main env events = Alive st"
    and "settings_window st = Some d" and "dialog_shown d"
    and "writable (disk st)" and "device_ok (disk st)"
    and "list_all no_open_or_exit others"
  shows "\<exists>st1 st2 d2.
           app_exec st (Apply_button # others) = Looping st1 \<and>
           settings_window st1 = Some (d\<lparr>dialog_shown := False\<rparr>) \<and>
           dispatch Settings_action st1 = Handled st2 \<and>
           settings_window st2 = Some d2 \<and>
           dialog_id d2 \<noteq> dialog_id d \<and>
           dialog_shown d2 \<and>
           size_slider d2 = size_slider d \<and>
           thickness_slider d2 = thickness_slider d \<and>
           transparency_slider d2 = transparency_slider d \<and>
           dialog_color d2 = dialog_color d"
proof -
  from main_Alive_inv [OF assms(1)] assms(2)
  have ok: "dialog_ok d" and ident: "dialog_id d \<le> dialogs_made st"
    by (auto simp: run_inv_def dialog_inv_def)
  let ?hidden = "d\<lparr>dialog_shown := False\<rparr>"
  let ?ov = "update_settings d (overlay st)"
  obtain fs' where applied: "apply_settings d (overlay st) (disk st) = (None, ?hidden, ?ov, fs')"
    using apply_settings_written [OF assms(4,5)] by blast
  let ?st0 = "st\<lparr>overlay := ?ov, settings_window := Some ?hidden, disk := fs'\<rparr>"
  have step: "dispatch Apply_button st = Handled ?st0"
    using dispatch_Apply_button [OF assms(2,3) applied] by simp
  from hidden_dialog_run [of ?st0 ?hidden others] assms(6) obtain st1 where
    st1: "app_exec ?st0 others = Looping st1" "settings_window st1 = Some ?hidden"
      "appearance (overlay st1) = appearance ?ov" "dialogs_made st1 = dialogs_made st"
    by auto
  have run: "app_exec st (Apply_button # others) = Looping st1"
    using step st1(1) by simp
  have "appearance_ok (overlay st1)"
    using appearance_ok_cong [OF st1(3)] update_settings_ok [OF ok] by simp
  from SettingsWindow_ok [OF this, of "Suc (dialogs_made st1)"] obtain s t a where
    same: "appearance (overlay st1) = (PInt s, PInt t, overlay_color (overlay st1), PInt a)" and
    w: "SettingsWindow (Suc (dialogs_made st1)) (overlay st1) =
          Inr \<lparr>size_slider = \<lparr>slider_minimum = 1, slider_maximum = 20, slider_value = s\<rparr>,
               thickness_slider = \<lparr>slider_minimum = 1, slider_maximum = 10, slider_value = t\<rparr>,
               transparency_slider =
                 \<lparr>slider_minimum = 0, slider_maximum = 255, slider_value = a\<rparr>,
               dialog_color = overlay_color (overlay st1), dialog_shown = False,
               dialog_id = Suc (dialogs_made st1)\<rparr>"
    by blast
  from same st1(3) have vals: "s = slider_value (size_slider d)"
    "t = slider_value (thickness_slider d)" "a = slider_value (transparency_slider d)"
    "overlay_color (overlay st1) = dialog_color d"
    by (simp_all add: update_settings_appearance)
  let ?d2 = "\<lparr>size_slider = size_slider d, thickness_slider = thickness_slider d,
              transparency_slider = transparency_slider d, dialog_color = dialog_color d,
              dialog_shown = True, dialog_id = Suc (dialogs_made st)\<rparr>"
  let ?st2 = "st1\<lparr>settings_window := Some ?d2, dialogs_made := Suc (dialogs_made st)\<rparr>"
  from ok have sliders:
    "\<lparr>slider_minimum = 1, slider_maximum = 20, slider_value = slider_value (size_slider d)\<rparr>
       = size_slider d"
    "\<lparr>slider_minimum = 1, slider_maximum = 10, slider_value = slider_value (thickness_slider d)\<rparr>
       = thickness_slider d"
    "\<lparr>slider_minimum = 0, slider_maximum = 255,
       slider_value = slider_value (transparency_slider d)\<rparr> = transparency_slider d"
    by (simp_all add: dialog_ok_def slider_ok_eq)
  have opened: "dispatch Settings_action st1 = Handled ?st2"
    using w by (simp add: open_settings_def vals sliders st1(4))
  show ?thesis
    apply (rule exI [of _ st1], rule exI [of _ ?st2], rule exI [of _ ?d2])
    using run st1(2) opened ident by simp
qed

theorem apply_then_reopen_witness:
  "main desktop [Settings_action] = Alive opened \<and>
   settings_window opened = Some first_dialog \<and> dialog_shown first_dialog \<and>
   writable (disk opened) \<and> device_ok (disk opened) \<and>
   list_all no_open_or_exit [Toggle_action] \<and>
   (\<exists>st1 st2 d2.
      app_exec opened [Apply_button, Toggle_action] = Looping st1 \<and>
      settings_window st1 = Some (first_dialog\<lparr>dialog_shown := False\<rparr>) \<and>
      dispatch Settings_action st1 = Handled st2 \<and>
      settings_window st2 = Some d2 \<and>
      dialog_id d2 \<noteq> dialog_id first_dialog \<and>
      dialog_shown d2 \<and>
      size_slider d2 = size_slider first_dialog \<and>
      thickness_slider d2 = thickness_slider first_dialog \<and>
      transparency_slider d2 = transparency_slider first_dialog \<and>
      dialog_color d2 = dialog_color first_dialog)"
proof -
  have run: "main desktop [Settings_action] = Alive opened"
    by code_simp
  have h: "settings_window opened = Some first_dialog" "dialog_shown first_dialog"
    "writable (disk opened)" "device_ok (disk opened)"
    by (simp_all add: opened_def first_dialog_def idle_def)
  have others: "list_all no_open_or_exit [Toggle_action]"
    by (simp add: no_open_or_exit_def)
  from apply_then_reopen [OF run h others] run h others show ?thesis
    by simp
qed

section \<open>The toggle\<close>

text \<open>
  Claim C10: in every state that the running program reaches, the menu item and a
  left click on the tray icon both run \<^verbatim>\<open>toggle_overlay\<close>; one call leaves the
  four appearance attributes as they were, and two calls in a row bring back
  \<^verbatim>\<open>is_overlay_visible\<close>, the overlay's visibility and the menu text (in fact the
  whole state).
\<close>

theorem toggle_overlay_involution:
  assumes "main env events = Alive st"
  shows "dispatch Toggle_action st = Handled (toggle_overlay st) \<and>
         dispatch (Tray_activated Trigger) st = Handled (toggle_overlay st) \<and>
         appearance (overlay (toggle_overlay st)) = appearance (overlay st) \<and>
         is_overlay_visible (toggle_overlay (toggle_overlay st)) = is_overlay_visible st \<and>
         overlay_shown (overlay (toggle_overlay (toggle_overlay st))) = overlay_shown (overlay st) \<and>
         toggle_action_text (toggle_overlay (toggle_overlay st)) = toggle_action_text st \<and>
         toggle_overlay (toggle_overlay st) = st"
proof -
  from main_Alive_inv [OF assms] have inv: "tray_inv st"
    by (auto simp: run_inv_def)
  have twice: "toggle_overlay (toggle_overlay st) = st"
    using inv
    by (cases "is_overlay_visible st")
       (simp_all add: tray_inv_def toggle_overlay_def overlay_hide_def overlay_show_def Let_def)
  show ?thesis
    by (simp add: twice on_tray_icon_activated_def)
qed

theorem toggle_overlay_involution_witness:
  "main desktop [] = Alive idle \<and>
   dispatch (Tray_activated Trigger) idle = Handled (toggle_overlay idle) \<and>
   appearance (overlay (toggle_overlay idle)) = appearance (overlay idle) \<and>
   toggle_action_text (toggle_overlay idle) = ''Show Crosshair'' \<and>
   toggle_overlay (toggle_overlay idle) = idle"
proof -
  have run: "main desktop [] = Alive idle" by code_simp
  have label: "toggle_action_text (toggle_overlay idle) = ''Show Crosshair''" by code_simp
  from toggle_overlay_involution [OF run] run label show ?thesis by simp
qed

end
